theory Spec2Isabelle
  imports Complex_Main "HOL-Library.Log_Nat"
begin

section \<open>The fitness tracker module \<open>homework.py\<close>\<close>

text \<open>
  Numbers. The module computes with Python \<open>int\<close> and \<open>float\<close> values. Both are embedded
  by their numerical value in \<^typ>\<open>real\<close>. The results of \<open>+\<close>, \<open>-\<close>, \<open>*\<close> and \<open>/\<close> are
  exact in the model: a result of the program differs from it by the rounding of binary
  floating point. The floor division \<open>//\<close> is not continuous, so a rounding error in its
  operands can move its result by a whole unit; its operands are therefore computed as the
  binary64 values the program has at that point, with every operation rounded. Overflow,
  infinities and NaN are not part of the model. Every division of the source that can
  raise \<open>ZeroDivisionError\<close> is a branch of the model.
\<close>

subsection \<open>Errors\<close>

text \<open>
  The exceptions the module can raise: \<open>KeyError\<close> with its message (the factory),
  \<open>TypeError\<close> (a dataclass constructor called with the wrong number of positional
  arguments), \<open>ZeroDivisionError\<close> (\<open>/\<close> and \<open>//\<close>), \<open>NotImplementedError\<close> (the base
  class).
\<close>

datatype error =
    KeyError string
  | TypeError
  | ZeroDivisionError
  | NotImplementedError

definition truediv :: "real \<Rightarrow> real \<Rightarrow> error + real" where
  "truediv x y = (if y = 0 then Inl ZeroDivisionError else Inr (x / y))"

subsection \<open>Binary64 values\<close>

text \<open>
  \<open>binexp x\<close> is the binary exponent of a non-zero \<open>x\<close>: the \<open>e\<close> with
  \<open>2\<^sup>e \<le> \<bar>x\<bar> < 2\<^sup>e\<^sup>+\<^sup>1\<close>. \<open>round_even\<close> rounds to the nearest integer, a tie to the even one.
\<close>

definition binexp :: "real \<Rightarrow> int" where
  "binexp x =
     (if 1 \<le> \<bar>x\<bar> then bitlen \<lfloor>\<bar>x\<bar>\<rfloor> - 1 else - bitlen (\<lceil>1 / \<bar>x\<bar>\<rceil> - 1))"

definition round_even :: "real \<Rightarrow> int" where
  "round_even t =
     (let f = \<lfloor>t\<rfloor>; r = t - of_int f
      in if r < 1 / 2 then f else if 1 / 2 < r then f + 1 else if even f then f else f + 1)"

text \<open>
  \<open>to_float x\<close> is the binary64 value nearest to \<open>x\<close>, ties to even: \<open>x\<close> rounded to a
  significand of 53 bits. It is what \<open>float\<close> makes of a Python \<open>int\<close> or of a decimal
  literal, and the rounding that ends every float operation. The exponent is not bounded:
  the model has no overflow and no subnormal numbers.
\<close>

definition to_float :: "real \<Rightarrow> real" where
  "to_float x =
     (if x = 0 then 0
      else let q = 2 powi (binexp x - 52) in of_int (round_even (x / q)) * q)"

text \<open>
  The float operations on binary64 values. \<open>x ** n\<close> calls the \<open>pow\<close> of the C library;
  the model takes the correctly rounded power (a library whose \<open>pow\<close> is not correctly
  rounded may return the neighbouring binary64 value).
\<close>

definition float_mul :: "real \<Rightarrow> real \<Rightarrow> real" where
  "float_mul x y = to_float (x * y)"

definition float_truediv :: "real \<Rightarrow> real \<Rightarrow> error + real" where
  "float_truediv x y = (if y = 0 then Inl ZeroDivisionError else Inr (to_float (x / y)))"

definition float_pow :: "real \<Rightarrow> nat \<Rightarrow> real" where
  "float_pow x n = to_float (x ^ n)"

text \<open>The \<open>fmod\<close> of C: the remainder of the quotient truncated towards zero, exact.\<close>

definition fmod :: "real \<Rightarrow> real \<Rightarrow> real" where
  "fmod x y = x - of_int (if 0 \<le> x / y then \<lfloor>x / y\<rfloor> else \<lceil>x / y\<rceil>) * y"

text \<open>
  \<open>vx // wx\<close> on floats, as CPython computes it: \<open>mod = fmod(vx, wx)\<close>,
  \<open>div = (vx - mod) / wx\<close>; when \<open>mod\<close> is not zero and its sign is not the sign of \<open>wx\<close>,
  \<open>div -= 1.0\<close>; then the quotient is snapped to an integral value: \<open>floor(div)\<close>, plus one
  when \<open>div - floor(div) > 0.5\<close>. Every step is a float operation.
\<close>

definition floordiv :: "real \<Rightarrow> real \<Rightarrow> error + real" where
  "floordiv vx wx =
     (if wx = 0 then Inl ZeroDivisionError
      else
        let md = fmod vx wx;
            quot = to_float (to_float (vx - md) / wx);
            quot = (if md \<noteq> 0 \<and> (wx < 0) \<noteq> (md < 0) then to_float (quot - 1) else quot);
            fl = of_int \<lfloor>quot\<rfloor>
        in Inr (if quot = 0 then 0
                else if 1 / 2 < to_float (quot - fl) then to_float (fl + 1) else fl))"

subsection \<open>The classes\<close>

text \<open>
  \<open>Training\<close> is a dataclass with the fields \<open>action\<close>, \<open>duration\<close>, \<open>weight\<close>; it is not
  abstract and can be instantiated. \<open>Running\<close> adds no field, \<open>SportsWalking\<close> adds
  \<open>height\<close>, \<open>Swimming\<close> adds \<open>length_pool\<close> and \<open>count_pool\<close>. An instance is its class
  together with its field values. The generated constructors check no types, so the type
  of the field values is a parameter.
\<close>

datatype 'a training =
    Training (action: 'a) (duration: 'a) (weight: 'a)
  | Running (action: 'a) (duration: 'a) (weight: 'a)
  | SportsWalking (action: 'a) (duration: 'a) (weight: 'a) (height: 'a)
  | Swimming (action: 'a) (duration: 'a) (weight: 'a) (length_pool: 'a) (count_pool: 'a)


text \<open>
  The class constants. \<open>self.LEN_STEP\<close> is looked up through the class of the instance:
  \<open>Swimming\<close> redefines it, the other classes inherit the one of \<open>Training\<close>.
\<close>

fun LEN_STEP :: "'a training \<Rightarrow> real" where
  "LEN_STEP (Swimming _ _ _ _ _) = 1.38"
| "LEN_STEP _ = 0.65"

definition M_IN_KM :: real where
  "M_IN_KM = 1000"

definition MIN_IN_HOUR :: real where
  "MIN_IN_HOUR = 60"

record InfoMessage =
  training_type :: string
  info_duration :: real
  distance :: real
  speed :: real
  calories :: real

subsection \<open>The methods\<close>

text \<open>\<open>Training.get_distance\<close>, inherited by every class.\<close>

definition get_distance :: "real training \<Rightarrow> real" where
  "get_distance self = action self * LEN_STEP self / M_IN_KM"

text \<open>\<open>get_mean_speed\<close>: \<open>Swimming\<close> overrides it, the other classes inherit the base one.\<close>

fun get_mean_speed :: "real training \<Rightarrow> error + real" where
  "get_mean_speed (Swimming a d w lp cp) = truediv (lp * cp / M_IN_KM) d"
| "get_mean_speed self = truediv (get_distance self) (duration self)"

text \<open>
  The binary64 values that \<open>Training.get_distance\<close> and \<open>Training.get_mean_speed\<close>
  return: the fields are converted to float where they meet a float, and every operation
  is rounded. \<open>LEN_STEP\<close> is a float, so this is what the methods compute whether the fields
  hold ints or floats.
\<close>

definition Training_get_distance_float :: "real training \<Rightarrow> real" where
  "Training_get_distance_float self =
     to_float (float_mul (to_float (action self)) (to_float (LEN_STEP self)) / to_float M_IN_KM)"

definition Training_get_mean_speed_float :: "real training \<Rightarrow> error + real" where
  "Training_get_mean_speed_float self =
     float_truediv (Training_get_distance_float self) (to_float (duration self))"

text \<open>
  \<open>get_spent_calories\<close>: the base method raises, each subclass overrides it. The operands
  are evaluated left to right, so the mean speed is computed (and may raise) first. In
  \<open>SportsWalking\<close>, \<open>self.get_mean_speed()\<close> is the inherited base method, and the
  operands of \<open>//\<close> are binary64 values: the float that method returns, squared, and the
  height converted to float.
\<close>

fun get_spent_calories :: "real training \<Rightarrow> error + real" where
  "get_spent_calories (Training a d w) = Inl NotImplementedError"
| "get_spent_calories (Running a d w) =
     (case get_mean_speed (Running a d w) of
        Inl e \<Rightarrow> Inl e
      | Inr v \<Rightarrow> Inr ((18 * v - 20) * w / M_IN_KM * d * MIN_IN_HOUR))"
| "get_spent_calories (SportsWalking a d w h) =
     (case Training_get_mean_speed_float (SportsWalking a d w h) of
        Inl e \<Rightarrow> Inl e
      | Inr v \<Rightarrow>
          (case floordiv (float_pow v 2) (to_float h) of
             Inl e \<Rightarrow> Inl e
           | Inr q \<Rightarrow> Inr ((0.035 + q * 0.029) * w * d * MIN_IN_HOUR)))"
| "get_spent_calories (Swimming a d w lp cp) =
     (case get_mean_speed (Swimming a d w lp cp) of
        Inl e \<Rightarrow> Inl e
      | Inr v \<Rightarrow> Inr ((v + 1.1) * 2 * w))"


subsection \<open>Objects in the heap\<close>

text \<open>
  Instances are objects in a heap, and a variable holds a reference. The heap is the list
  of the objects created so far, and a reference is a position in it: a new object is put
  at the end.
\<close>

datatype object =
    TrainingObject "real training"
  | InfoMessageObject InfoMessage

type_synonym heap = "object list"

definition object_at :: "heap \<Rightarrow> nat \<Rightarrow> object option" where
  "object_at hp r = (if r < length hp then Some (hp ! r) else None)"

definition new_object :: "object \<Rightarrow> heap \<Rightarrow> nat \<times> heap" where
  "new_object obj hp = (length hp, hp @ [obj])"



subsection \<open>The factory\<close>

text \<open>The classes that \<open>WORKOUTS\<close> maps to, and the codes of \<open>WorkoutType\<close>.\<close>

datatype workout_class = SwimmingClass | RunningClass | SportsWalkingClass

definition SWIMMING :: string where
  "SWIMMING = ''SWM''"

definition RUNNING :: string where
  "RUNNING = ''RUN''"

definition SPORTS_WALKING :: string where
  "SPORTS_WALKING = ''WLK''"

definition WORKOUTS :: "string \<rightharpoonup> workout_class" where
  "WORKOUTS =
     [SWIMMING \<mapsto> SwimmingClass, RUNNING \<mapsto> RunningClass, SPORTS_WALKING \<mapsto> SportsWalkingClass]"

text \<open>
  The constructor call \<open>cls(*args)\<close>: the generated \<open>__init__\<close> binds the positional
  arguments to the fields in declaration order, base fields first, and raises \<open>TypeError\<close>
  when there are too few or too many.
\<close>

fun construct :: "workout_class \<Rightarrow> 'a list \<Rightarrow> error + 'a training" where
  "construct RunningClass args =
     (case args of
        [a, d, w] \<Rightarrow> Inr (Running a d w)
      | _ \<Rightarrow> Inl TypeError)"
| "construct SportsWalkingClass args =
     (case args of
        [a, d, w, h] \<Rightarrow> Inr (SportsWalking a d w h)
      | _ \<Rightarrow> Inl TypeError)"
| "construct SwimmingClass args =
     (case args of
        [a, d, w, lp, cp] \<Rightarrow> Inr (Swimming a d w lp cp)
      | _ \<Rightarrow> Inl TypeError)"

text \<open>
  The message of the \<open>KeyError\<close> is a plain string literal in the source (there is no
  \<open>f\<close> prefix), so the braces are part of it.
\<close>

definition unknown_workout_message :: string where
  "unknown_workout_message =
     ''Unknown workout type: '' @ [CHR 0x27] @ ''{workout_type}'' @ [CHR 0x27]"

definition create :: "string \<Rightarrow> 'a list \<Rightarrow> error + 'a training" where
  "create workout_type args =
     (case WORKOUTS workout_type of
        None \<Rightarrow> Inl (KeyError unknown_workout_message)
      | Some cls \<Rightarrow> construct cls args)"

definition read_package :: "string \<Rightarrow> 'a list \<Rightarrow> error + 'a training" where
  "read_package workout_type data = create workout_type data"

subsection \<open>Field constraints\<close>

text \<open>
  The constructors validate nothing. The constraints below are the ones the data model
  states for the fields (a count is non-negative, a duration, a weight, a height and a pool
  length are positive); they are the precondition of the properties about valid inputs.
\<close>

fun valid_fields :: "real training \<Rightarrow> bool" where
  "valid_fields (Training a d w) = (0 \<le> a \<and> 0 < d \<and> 0 < w)"
| "valid_fields (Running a d w) = (0 \<le> a \<and> 0 < d \<and> 0 < w)"
| "valid_fields (SportsWalking a d w h) = (0 \<le> a \<and> 0 < d \<and> 0 < w \<and> 0 < h)"
| "valid_fields (Swimming a d w lp cp) = (0 \<le> a \<and> 0 < d \<and> 0 < w \<and> 0 < lp \<and> 0 \<le> cp)"

section \<open>Properties\<close>

subsection \<open>The sample workouts\<close>

text \<open>
  C1 (as amended). For the running workout with \<open>action = 15000\<close>, \<open>duration = 1\<close>,
  \<open>weight = 75\<close>, the distance is 9.75 km, the mean speed is 9.75 km/h, and the spent
  calories, \<open>(18 * 9.75 - 20) * 75 / 1000 * 1 * 60\<close>, are 699.75.
\<close>

theorem running_sample_values:
  "get_distance (Running 15000 1 75) = 9.75 \<and>
   get_mean_speed (Running 15000 1 75) = Inr 9.75 \<and>
   get_spent_calories (Running 15000 1 75) = Inr 699.75"
  by (simp add: get_distance_def truediv_def M_IN_KM_def MIN_IN_HOUR_def)

text \<open>
  C1 as stated gives 700.575 for the calories of this workout. The method returns 699.75,
  which is not 700.575 and is further than 0.8 away from it.
\<close>

theorem running_sample_calories_counterexample:
  "get_spent_calories (Running 15000 1 75) = Inr 699.75 \<and>
   get_spent_calories (Running 15000 1 75) \<noteq> Inr 700.575 \<and>
   0.8 < \<bar>projr (get_spent_calories (Running 15000 1 75)) - 700.575\<bar>"
  by (simp add: get_distance_def truediv_def M_IN_KM_def MIN_IN_HOUR_def)

subsection \<open>Rounding to binary64\<close>

text \<open>\<open>binexp\<close> is the binary exponent.\<close>

lemma binexp_lower: "x \<noteq> 0 \<Longrightarrow> 2 powi binexp x \<le> \<bar>x\<bar>"
proof (cases "1 \<le> \<bar>x\<bar>")
  case True
  define n where "n = \<lfloor>\<bar>x\<bar>\<rfloor>"
  have n: "0 < n" using True by (simp add: n_def)
  have b: "1 \<le> bitlen n" using n by (simp add: bitlen_alt_def)
  from bitlen_bounds [OF n] have "(2::int) ^ nat (bitlen n - 1) \<le> n" ..
  then have "(2::real) ^ nat (bitlen n - 1) \<le> of_int n"
    by (metis of_int_le_iff of_int_numeral of_int_power)
  also have "\<dots> \<le> \<bar>x\<bar>" by (simp add: n_def)
  finally show ?thesis
    using True b by (simp add: binexp_def n_def power_int_nonneg_exp)
next
  case False
  assume x: "x \<noteq> 0"
  define t where "t = 1 / \<bar>x\<bar>"
  define m where "m = \<lceil>t\<rceil> - 1"
  have t: "1 < t" using False x by (simp add: t_def)
  then have m: "0 < m" by (simp add: m_def)
  from bitlen_bounds [OF m] have "m < 2 ^ nat (bitlen m)" ..
  then have "m + 1 \<le> 2 ^ nat (bitlen m)" by simp
  then have "real_of_int (m + 1) \<le> 2 ^ nat (bitlen m)"
    by (metis of_int_le_iff of_int_numeral of_int_power)
  moreover have "t \<le> real_of_int (m + 1)" by (simp add: m_def)
  ultimately have "t \<le> 2 ^ nat (bitlen m)" by linarith
  then have "1 / 2 ^ nat (bitlen m) \<le> \<bar>x\<bar>"
    using x by (simp add: t_def field_simps)
  moreover have "2 powi (- bitlen m) = (1::real) / 2 ^ nat (bitlen m)"
    by (simp add: power_int_minus_divide power_int_nonneg_exp bitlen_nonneg)
  ultimately show ?thesis
    using False by (simp add: binexp_def m_def t_def)
qed

lemma binexp_upper: "x \<noteq> 0 \<Longrightarrow> \<bar>x\<bar> < 2 powi (binexp x + 1)"
proof (cases "1 \<le> \<bar>x\<bar>")
  case True
  define n where "n = \<lfloor>\<bar>x\<bar>\<rfloor>"
  have n: "0 < n" using True by (simp add: n_def)
  from bitlen_bounds [OF n] have "n < 2 ^ nat (bitlen n)" ..
  then have "n + 1 \<le> 2 ^ nat (bitlen n)" by simp
  then have "real_of_int (n + 1) \<le> 2 ^ nat (bitlen n)"
    by (metis of_int_le_iff of_int_numeral of_int_power)
  moreover have "\<bar>x\<bar> < real_of_int (n + 1)" by (simp add: n_def)
  ultimately have "\<bar>x\<bar> < 2 ^ nat (bitlen n)" by linarith
  then show ?thesis
    using True by (simp add: binexp_def n_def power_int_nonneg_exp bitlen_nonneg)
next
  case False
  assume x: "x \<noteq> 0"
  define t where "t = 1 / \<bar>x\<bar>"
  define m where "m = \<lceil>t\<rceil> - 1"
  have t: "1 < t" using False x by (simp add: t_def)
  then have m: "0 < m" by (simp add: m_def)
  have b: "1 \<le> bitlen m" using m by (simp add: bitlen_alt_def)
  from bitlen_bounds [OF m] have "(2::int) ^ nat (bitlen m - 1) \<le> m" ..
  then have "(2::real) ^ nat (bitlen m - 1) \<le> of_int m"
    by (metis of_int_le_iff of_int_numeral of_int_power)
  moreover have "real_of_int m < t" by (simp add: m_def) linarith
  ultimately have "2 ^ nat (bitlen m - 1) < t" by linarith
  then have "\<bar>x\<bar> < 1 / 2 ^ nat (bitlen m - 1)"
    using x by (simp add: t_def field_simps)
  moreover have "2 powi (- bitlen m + 1) = (1::real) / 2 ^ nat (bitlen m - 1)"
  proof -
    have "- bitlen m + 1 = - (bitlen m - 1)" by simp
    then show ?thesis
      using b by (simp only: power_int_minus_divide) (simp add: power_int_nonneg_exp)
  qed
  ultimately show ?thesis
    using False by (simp add: binexp_def m_def t_def)
qed

lemma round_even_error: "\<bar>of_int (round_even t) - t\<bar> \<le> 1 / 2"
  unfolding round_even_def Let_def by (auto simp: abs_le_iff)

lemma round_even_of_int: "round_even (of_int n) = n"
  by (simp add: round_even_def)





lemma to_float_0: "to_float 0 = 0"
  by (simp add: to_float_def)



lemma to_float_error: "\<bar>to_float x - x\<bar> \<le> \<bar>x\<bar> / 2 ^ 53"
proof (cases "x = 0")
  case True
  then show ?thesis by (simp add: to_float_def)
next
  case False
  let ?q = "(2::real) powi (binexp x - 52)"
  let ?t = "x / ?q"
  have q: "0 < ?q" by simp
  have "to_float x - x = (of_int (round_even ?t) - ?t) * ?q"
    using False by (simp add: to_float_def Let_def algebra_simps)
  then have "\<bar>to_float x - x\<bar> = \<bar>of_int (round_even ?t) - ?t\<bar> * ?q"
    using q by (simp add: abs_mult)
  also have "\<dots> \<le> 1 / 2 * ?q"
    using round_even_error [of ?t] q by (intro mult_right_mono) simp_all
  also have "1 / 2 * ?q = 2 powi binexp x / 2 ^ 53"
    using power_int_add [of "2::real" "binexp x - 52" 52] by simp
  also have "\<dots> \<le> \<bar>x\<bar> / 2 ^ 53"
    using binexp_lower [OF False] by (simp add: divide_right_mono)
  finally show ?thesis .
qed

lemma to_float_of_int:
  assumes "\<bar>n\<bar> < 2 ^ 53"
  shows "to_float (of_int n) = of_int n"
proof (cases "n = 0")
  case True
  then show ?thesis by (simp add: to_float_def)
next
  case False
  let ?x = "real_of_int n"
  let ?e = "binexp ?x"
  have x: "?x \<noteq> 0" using False by simp
  have "\<bar>?x\<bar> < 2 ^ 53"
    using assms by (metis of_int_abs of_int_less_iff of_int_numeral of_int_power)
  with binexp_lower [OF x] have "(2::real) powi ?e < 2 powi 53" by simp
  then have e: "?e \<le> 52"
    using power_int_increasing [of 53 ?e "2::real"] by (cases "?e \<le> 52") auto
  define k where "k = nat (52 - ?e)"
  have q: "(2::real) powi (?e - 52) = 1 / 2 ^ k"
  proof -
    have "?e - 52 = - int k" using e by (simp add: k_def)
    then show ?thesis by (simp add: power_int_minus_divide)
  qed
  have "?x / 2 powi (?e - 52) = of_int (n * 2 ^ k)"
    by (simp add: q)
  then have "round_even (?x / 2 powi (?e - 52)) = n * 2 ^ k"
    by (simp only: round_even_of_int)
  then show ?thesis
    using x by (simp add: to_float_def Let_def q)
qed


lemma fmod_nonneg:
  assumes "0 \<le> vx" "0 < wx"
  shows "fmod vx wx = vx - of_int \<lfloor>vx / wx\<rfloor> * wx"
    and "0 \<le> fmod vx wx"
proof -
  have q: "0 \<le> vx / wx" using assms by simp
  then show eq: "fmod vx wx = vx - of_int \<lfloor>vx / wx\<rfloor> * wx"
    by (simp add: fmod_def)
  have "of_int \<lfloor>vx / wx\<rfloor> * wx \<le> vx / wx * wx"
    using assms(2) by (intro mult_right_mono) simp_all
  then have "of_int \<lfloor>vx / wx\<rfloor> * wx \<le> vx"
    using assms(2) by simp
  with eq show "0 \<le> fmod vx wx" by simp
qed

lemma floordiv_exact:
  assumes vx: "0 \<le> vx" and wx: "0 < wx" and small: "\<lfloor>vx / wx\<rfloor> \<le> 2 ^ 49"
  shows "floordiv vx wx = Inr (of_int \<lfloor>vx / wx\<rfloor>)"
proof -
  define n where "n = \<lfloor>vx / wx\<rfloor>"
  define N where "N = real_of_int n"
  have n0: "0 \<le> n" using vx wx by (simp add: n_def)
  have N0: "0 \<le> N" using n0 by (simp add: N_def)
  have "n \<le> 2 ^ 49" using small by (simp add: n_def)
  then have "real_of_int n \<le> of_int (2 ^ 49)" by (simp only: of_int_le_iff)
  then have N49: "N \<le> 2 ^ 49" by (simp add: N_def)
  have nabs: "\<bar>n\<bar> < 2 ^ 53" using n0 \<open>n \<le> 2 ^ 49\<close> by simp
  have md: "fmod vx wx = vx - N * wx" "0 \<le> fmod vx wx"
    using fmod_nonneg [OF vx wx] by (simp_all add: n_def N_def)
  define s where "s = to_float (N * wx)"
  define t where "t = s / wx"
  define dv where "dv = to_float t"
  have st: "\<bar>t - N\<bar> \<le> N / 2 ^ 53"
  proof -
    have "\<bar>s - N * wx\<bar> \<le> \<bar>N * wx\<bar> / 2 ^ 53"
      unfolding s_def by (rule to_float_error)
    also have "\<bar>N * wx\<bar> = N * wx" using N0 wx by simp
    finally have "\<bar>s - N * wx\<bar> \<le> N * wx / 2 ^ 53" .
    then have "\<bar>s - N * wx\<bar> / wx \<le> N * wx / 2 ^ 53 / wx"
      using wx by (intro divide_right_mono) simp_all
    moreover have "\<bar>s - N * wx\<bar> / wx = \<bar>t - N\<bar>"
    proof -
      have "t - N = (s - N * wx) / wx" using wx by (simp add: t_def field_simps)
      then show ?thesis using wx by simp
    qed
    moreover have "N * wx / 2 ^ 53 / wx = N / 2 ^ 53" using wx by simp
    ultimately show ?thesis by simp
  qed
  have dt: "\<bar>dv - t\<bar> \<le> \<bar>t\<bar> / 2 ^ 53"
    unfolding dv_def by (rule to_float_error)
  have close: "\<bar>dv - N\<bar> < 1 / 4"
  proof -
    have e: "N / 2 ^ 53 \<le> 1 / 16"
      using N49 by simp
    from st e have tN: "\<bar>t - N\<bar> \<le> 1 / 16" by linarith
    have "\<bar>t\<bar> \<le> N + 1 / 16" using tN N0 by linarith
    also have "\<dots> \<le> 2 ^ 49 + 1" using N49 by simp
    finally have "\<bar>t\<bar> / 2 ^ 53 \<le> (2 ^ 49 + 1) / 2 ^ 53"
      by (simp add: divide_right_mono)
    also have "\<dots> < (1::real) / 8" by simp
    finally have "\<bar>dv - t\<bar> < 1 / 8" using dt by linarith
    with tN show ?thesis by linarith
  qed
  have quot: "to_float (to_float (vx - fmod vx wx) / wx) = dv"
    by (simp add: md dv_def t_def s_def)
  have noadj: "(fmod vx wx \<noteq> 0 \<and> (wx < 0) \<noteq> (fmod vx wx < 0)) = False"
    using md(2) wx by auto
  have wx0: "(wx = 0) = False"
    using wx by simp
  have res: "(if dv = 0 then 0
      else if 1 / 2 < to_float (dv - of_int \<lfloor>dv\<rfloor>) then to_float (of_int \<lfloor>dv\<rfloor> + 1)
      else of_int \<lfloor>dv\<rfloor>) = N"
  proof (cases "n = 0")
    case True
    then have "dv = 0" by (simp add: dv_def t_def s_def N_def to_float_0)
    with True show ?thesis by (simp add: N_def)
  next
    case False
    with n0 have "1 \<le> n" by simp
    then have N1: "1 \<le> N" by (simp add: N_def)
    with close have dvnz: "dv \<noteq> 0" by linarith
    show ?thesis
    proof (cases "N \<le> dv")
      case True
      with close have "\<lfloor>dv\<rfloor> = n"
        by (simp add: floor_eq_iff N_def; linarith)
      then have fl: "real_of_int \<lfloor>dv\<rfloor> = N" by (simp add: N_def)
      have r: "0 \<le> dv - N" "dv - N < 1 / 4" using True close by linarith+
      have "\<bar>to_float (dv - N) - (dv - N)\<bar> \<le> \<bar>dv - N\<bar> / 2 ^ 53"
        by (rule to_float_error)
      moreover have "\<bar>dv - N\<bar> / 2 ^ 53 \<le> \<bar>dv - N\<bar>"
        by (simp add: divide_le_eq)
      ultimately have "to_float (dv - N) \<le> 1 / 2" using r by linarith
      with dvnz fl show ?thesis by simp
    next
      case False
      with close have "\<lfloor>dv\<rfloor> = n - 1"
        by (simp add: floor_eq_iff N_def; linarith)
      then have fl: "real_of_int \<lfloor>dv\<rfloor> = N - 1" by (simp add: N_def)
      have r: "3 / 4 < dv - (N - 1)" "dv - (N - 1) < 1" using False close by linarith+
      have "\<bar>to_float (dv - (N - 1)) - (dv - (N - 1))\<bar> \<le> \<bar>dv - (N - 1)\<bar> / 2 ^ 53"
        by (rule to_float_error)
      moreover have "\<bar>dv - (N - 1)\<bar> / 2 ^ 53 \<le> 1 / 8"
        using r by simp
      ultimately have "1 / 2 < to_float (dv - (N - 1))" using r by linarith
      moreover have "to_float (N - 1 + 1) = N"
        using to_float_of_int [OF nabs] by (simp add: N_def)
      ultimately show ?thesis using dvnz fl by simp
    qed
  qed
  show ?thesis
    by (simp only: floordiv_def Let_def quot wx0 noadj if_False res N_def n_def)
qed

lemma floordiv_zero:
  assumes "0 \<le> vx" "vx < wx"
  shows "floordiv vx wx = Inr 0"
proof -
  from assms have wx: "0 < wx" by simp
  from assms wx have "\<lfloor>vx / wx\<rfloor> = 0"
    by (simp add: floor_eq_iff)
  with floordiv_exact [OF assms(1) wx] show ?thesis
    by simp
qed

subsection \<open>The float speed and the exact speed\<close>






subsection \<open>The walking formula\<close>





text \<open>
  C3. For every swimming workout with positive duration, the mean speed is
  \<open>length_pool * count_pool / 1000 / duration\<close>, it is the same for every value of
  \<open>action\<close>, and the spent calories are \<open>(mean speed + 1.1) * 2 * weight\<close>. For
  \<open>Swimming(720, 1, 80, 25, 40)\<close> the mean speed is 1 and the calories are 336.
\<close>

theorem swimming_speed_and_calories:
  "(0 < d \<longrightarrow>
      get_mean_speed (Swimming a d w lp cp) = Inr (lp * cp / 1000 / d) \<and>
      get_mean_speed (Swimming a' d w lp cp) = get_mean_speed (Swimming a d w lp cp) \<and>
      get_spent_calories (Swimming a d w lp cp) = Inr ((lp * cp / 1000 / d + 1.1) * 2 * w)) \<and>
   get_mean_speed (Swimming 720 1 80 25 40) = Inr 1 \<and>
   get_spent_calories (Swimming 720 1 80 25 40) = Inr 336"
  by (simp add: truediv_def M_IN_KM_def)

text \<open>
  The swimming formulas at a second input: 30 laps of a 50 m pool in half an hour are
  3 km/h, whatever the stroke count, and \<open>(3 + 1.1) * 2 * 70 = 574\<close>.
\<close>

theorem swimming_speed_and_calories_witness:
  "(0 :: real) < 0.5 \<and>
   get_mean_speed (Swimming 900 0.5 70 50 30) = Inr 3 \<and>
   get_mean_speed (Swimming 0 0.5 70 50 30) = Inr 3 \<and>
   get_spent_calories (Swimming 900 0.5 70 50 30) = Inr 574"
proof -
  have pos: "(0 :: real) < 0.5"
    by simp
  from swimming_speed_and_calories [of "0.5" 900 70 50 30 0] pos
  have "get_mean_speed (Swimming 900 0.5 70 50 30) = Inr (50 * 30 / 1000 / 0.5)"
    and "get_mean_speed (Swimming 0 0.5 70 50 30) = get_mean_speed (Swimming 900 0.5 70 50 30)"
    and "get_spent_calories (Swimming 900 0.5 70 50 30) = Inr ((50 * 30 / 1000 / 0.5 + 1.1) * 2 * 70)"
    by blast+
  with pos show ?thesis
    by simp
qed

subsection \<open>Distance and speed\<close>

text \<open>
  C6. The distance of a swimming workout is the base formula with the step length 1.38 of
  \<open>Swimming\<close>: \<open>action * 1.38 / 1000\<close>. The other classes use 0.65:
  \<open>action * 0.65 / 1000\<close>.
\<close>

theorem swimming_distance_len_step:
  "get_distance (Swimming a d w lp cp) = a * 1.38 / 1000 \<and>
   get_distance (Running a d w) = a * 0.65 / 1000 \<and>
   get_distance (SportsWalking a d w h) = a * 0.65 / 1000 \<and>
   get_distance (Training a d w) = a * 0.65 / 1000"
  by (simp add: get_distance_def M_IN_KM_def)

text \<open>
  C7. For valid fields (non-negative counts, positive duration, weight, height and pool
  length) the distance is non-negative, and the mean speed is defined and non-negative,
  in every class.
\<close>

theorem distance_speed_nonneg:
  "valid_fields t \<Longrightarrow> 0 \<le> get_distance t \<and> (\<exists>v. get_mean_speed t = Inr v \<and> 0 \<le> v)"
proof (cases t)
  case (Training a d w)
  moreover assume "valid_fields t"
  ultimately show ?thesis
    by (simp add: get_distance_def truediv_def M_IN_KM_def)
next
  case (Running a d w)
  moreover assume "valid_fields t"
  ultimately show ?thesis
    by (simp add: get_distance_def truediv_def M_IN_KM_def)
next
  case (SportsWalking a d w h)
  moreover assume "valid_fields t"
  ultimately show ?thesis
    by (simp add: get_distance_def truediv_def M_IN_KM_def)
next
  case (Swimming a d w lp cp)
  moreover assume "valid_fields t"
  ultimately show ?thesis
    by (simp add: get_distance_def truediv_def M_IN_KM_def)
qed

theorem distance_speed_nonneg_witness:
  "valid_fields (Swimming 720 1 80 25 40) \<and>
   0 \<le> get_distance (Swimming 720 1 80 25 40) \<and>
   (\<exists>v. get_mean_speed (Swimming 720 1 80 25 40) = Inr v \<and> 0 \<le> v) \<and>
   valid_fields (Running 0 1 75) \<and>
   0 \<le> get_distance (Running 0 1 75) \<and>
   (\<exists>v. get_mean_speed (Running 0 1 75) = Inr v \<and> 0 \<le> v) \<and>
   valid_fields (SportsWalking 9000 1 75 180) \<and>
   0 \<le> get_distance (SportsWalking 9000 1 75 180) \<and>
   (\<exists>v. get_mean_speed (SportsWalking 9000 1 75 180) = Inr v \<and> 0 \<le> v)"
proof -
  have swm: "valid_fields (Swimming 720 1 80 25 40)"
    and run: "valid_fields (Running 0 1 75)"
    and wlk: "valid_fields (SportsWalking 9000 1 75 180)"
    by simp_all
  from distance_speed_nonneg [OF swm] distance_speed_nonneg [OF run]
    distance_speed_nonneg [OF wlk] swm run wlk
  show ?thesis
    by blast
qed

subsection \<open>The base class\<close>

lemma float_truediv_error: "float_truediv x y = Inl e \<Longrightarrow> e = ZeroDivisionError"
  by (simp add: float_truediv_def split: if_splits)

lemma floordiv_error: "floordiv vx wx = Inl e \<Longrightarrow> e = ZeroDivisionError"
  by (simp add: floordiv_def Let_def split: if_splits)

text \<open>
  C8. \<open>get_spent_calories\<close> of a \<open>Training\<close> instance raises \<open>NotImplementedError\<close>. Each
  of the three subclasses overrides the method, and the override never raises
  \<open>NotImplementedError\<close>, whatever the field values.
\<close>

theorem base_calories_not_implemented:
  "get_spent_calories (Training a d w) = Inl NotImplementedError \<and>
   get_spent_calories (Running a d w) \<noteq> Inl NotImplementedError \<and>
   get_spent_calories (SportsWalking a d w h) \<noteq> Inl NotImplementedError \<and>
   get_spent_calories (Swimming a d w lp cp) \<noteq> Inl NotImplementedError"
proof (intro conjI)
  show "get_spent_calories (Training a d w) = Inl NotImplementedError"
    by simp
  show "get_spent_calories (Running a d w) \<noteq> Inl NotImplementedError"
    by (simp add: truediv_def split: sum.splits)
  show "get_spent_calories (Swimming a d w lp cp) \<noteq> Inl NotImplementedError"
    by (simp add: truediv_def split: sum.splits)
  show "get_spent_calories (SportsWalking a d w h) \<noteq> Inl NotImplementedError"
  proof (cases "Training_get_mean_speed_float (SportsWalking a d w h)")
    case (Inl e)
    then have "e = ZeroDivisionError"
      unfolding Training_get_mean_speed_float_def by (rule float_truediv_error)
    with Inl show ?thesis by simp
  next
    case (Inr v)
    show ?thesis
    proof (cases "floordiv (float_pow v 2) (to_float h)")
      case (Inl e)
      then have "e = ZeroDivisionError"
        by (rule floordiv_error)
      with Inl \<open>Training_get_mean_speed_float (SportsWalking a d w h) = Inr v\<close>
      show ?thesis by simp
    next
      case (Inr q)
      with \<open>Training_get_mean_speed_float (SportsWalking a d w h) = Inr v\<close>
      show ?thesis by simp
    qed
  qed
qed

subsection \<open>The info message\<close>


lemma object_at_new_object:
  "object_at (snd (new_object obj hp)) r =
     (if r = fst (new_object obj hp) then Some obj else object_at hp r)"
  by (auto simp: object_at_def new_object_def nth_append)





subsection \<open>Dispatch and arity in the factory\<close>

lemma WORKOUTS_None: "WORKOUTS code = None \<longleftrightarrow> code \<notin> {''SWM'', ''RUN'', ''WLK''}"
  by (simp add: WORKOUTS_def SWIMMING_def RUNNING_def SPORTS_WALKING_def)

lemma WORKOUTS_codes:
  "WORKOUTS ''SWM'' = Some SwimmingClass"
  "WORKOUTS ''RUN'' = Some RunningClass"
  "WORKOUTS ''WLK'' = Some SportsWalkingClass"
  by (simp_all add: WORKOUTS_def SWIMMING_def RUNNING_def SPORTS_WALKING_def)

lemma construct_not_KeyError: "construct cls args \<noteq> Inl (KeyError m)"
  by (cases cls) (simp_all split: list.splits)

lemma construct_Running:
  "construct RunningClass args =
     (if length args = 3 then Inr (Running (args ! 0) (args ! 1) (args ! 2)) else Inl TypeError)"
  by (simp split: list.splits)

lemma construct_SportsWalking:
  "construct SportsWalkingClass args =
     (if length args = 4 then Inr (SportsWalking (args ! 0) (args ! 1) (args ! 2) (args ! 3))
      else Inl TypeError)"
  by (simp split: list.splits)

lemma construct_Swimming:
  "construct SwimmingClass args =
     (if length args = 5
      then Inr (Swimming (args ! 0) (args ! 1) (args ! 2) (args ! 3) (args ! 4))
      else Inl TypeError)"
  by (simp split: list.splits)

lemma create_known:
  "create ''SWM'' args = construct SwimmingClass args"
  "create ''RUN'' args = construct RunningClass args"
  "create ''WLK'' args = construct SportsWalkingClass args"
  by (simp_all add: create_def WORKOUTS_codes)

text \<open>
  C4. \<open>create\<close> raises the \<open>KeyError\<close> for an unknown workout type exactly when the code
  is none of \<open>SWM\<close>, \<open>RUN\<close>, \<open>WLK\<close>, whatever the arguments are. For the three codes it
  calls the constructor of \<open>Swimming\<close>, \<open>Running\<close> and \<open>SportsWalking\<close>.
\<close>

theorem create_unknown_workout_type:
  "((\<exists>m. create code args = Inl (KeyError m)) \<longleftrightarrow> code \<notin> {''SWM'', ''RUN'', ''WLK''}) \<and>
   (code \<notin> {''SWM'', ''RUN'', ''WLK''} \<longrightarrow>
      create code args = Inl (KeyError unknown_workout_message)) \<and>
   create ''SWM'' args = construct SwimmingClass args \<and>
   create ''RUN'' args = construct RunningClass args \<and>
   create ''WLK'' args = construct SportsWalkingClass args \<and>
   create ''SWM'' [a, d, w, lp, cp] = Inr (Swimming a d w lp cp) \<and>
   create ''RUN'' [a, d, w] = Inr (Running a d w) \<and>
   create ''WLK'' [a, d, w, h] = Inr (SportsWalking a d w h)"
proof -
  have unknown: "code \<notin> {''SWM'', ''RUN'', ''WLK''} \<longrightarrow>
      create code args = Inl (KeyError unknown_workout_message)"
  proof
    assume "code \<notin> {''SWM'', ''RUN'', ''WLK''}"
    then have "WORKOUTS code = None"
      using WORKOUTS_None [of code] by blast
    then show "create code args = Inl (KeyError unknown_workout_message)"
      by (simp add: create_def)
  qed
  have known: "create code args \<noteq> Inl (KeyError m)"
    if "code \<in> {''SWM'', ''RUN'', ''WLK''}" for m
  proof -
    from that WORKOUTS_None [of code] obtain cls where "WORKOUTS code = Some cls"
      by auto
    then show ?thesis
      by (simp add: create_def construct_not_KeyError)
  qed
  have iff: "(\<exists>m. create code args = Inl (KeyError m)) \<longleftrightarrow> code \<notin> {''SWM'', ''RUN'', ''WLK''}"
  proof
    assume "\<exists>m. create code args = Inl (KeyError m)"
    with known show "code \<notin> {''SWM'', ''RUN'', ''WLK''}"
      by metis
  next
    assume "code \<notin> {''SWM'', ''RUN'', ''WLK''}"
    with unknown show "\<exists>m. create code args = Inl (KeyError m)"
      by metis
  qed
  have swm5: "create ''SWM'' [a, d, w, lp, cp] = Inr (Swimming a d w lp cp)"
    by (simp add: create_known)
  have run3: "create ''RUN'' [a, d, w] = Inr (Running a d w)"
    by (simp add: create_known)
  have wlk4: "create ''WLK'' [a, d, w, h] = Inr (SportsWalking a d w h)"
    by (simp add: create_known)
  show ?thesis
    by (intro conjI iff unknown create_known swm5 run3 wlk4)
qed

theorem create_unknown_workout_type_witness:
  "''XYZ'' \<notin> {''SWM'', ''RUN'', ''WLK''} \<and>
   create ''XYZ'' [720, 1, 80, 25, 40 :: real] = Inl (KeyError unknown_workout_message) \<and>
   create ''XYZ'' ([] :: real list) = Inl (KeyError unknown_workout_message)"
proof -
  have xyz: "''XYZ'' \<notin> {''SWM'', ''RUN'', ''WLK''}"
    by simp
  note full = create_unknown_workout_type
    [where code = "''XYZ''" and args = "[720, 1, 80, 25, 40 :: real]",
      THEN conjunct2, THEN conjunct1, THEN mp, OF xyz]
  note none = create_unknown_workout_type
    [where code = "''XYZ''" and args = "[] :: real list",
      THEN conjunct2, THEN conjunct1, THEN mp, OF xyz]
  show ?thesis
    by (intro conjI xyz full none)
qed

text \<open>
  C5. For each of the three codes, \<open>read_package\<close> raises \<open>TypeError\<close> when the number of
  values is not the number of fields of the class (3 for \<open>RUN\<close>, 4 for \<open>WLK\<close>, 5 for
  \<open>SWM\<close>); when it is, the instance is returned with the values bound to the fields in
  order.
\<close>

theorem read_package_arity:
  "read_package ''RUN'' data =
     (if length data = 3 then Inr (Running (data ! 0) (data ! 1) (data ! 2))
      else Inl TypeError) \<and>
   read_package ''WLK'' data =
     (if length data = 4 then Inr (SportsWalking (data ! 0) (data ! 1) (data ! 2) (data ! 3))
      else Inl TypeError) \<and>
   read_package ''SWM'' data =
     (if length data = 5
      then Inr (Swimming (data ! 0) (data ! 1) (data ! 2) (data ! 3) (data ! 4))
      else Inl TypeError)"
  unfolding read_package_def create_known
  by (intro conjI construct_Running construct_SportsWalking construct_Swimming)

theorem read_package_arity_witness:
  "read_package ''RUN'' [15000, 1, 75 :: real] = Inr (Running 15000 1 75) \<and>
   read_package ''RUN'' [15000, 1 :: real] = Inl TypeError \<and>
   read_package ''WLK'' [9000, 1, 75, 180 :: real] = Inr (SportsWalking 9000 1 75 180) \<and>
   read_package ''WLK'' [9000, 1, 75, 180, 0 :: real] = Inl TypeError \<and>
   read_package ''SWM'' [720, 1, 80, 25, 40 :: real] = Inr (Swimming 720 1 80 25 40) \<and>
   read_package ''SWM'' ([] :: real list) = Inl TypeError"
  using read_package_arity [of "[15000, 1, 75 :: real]"]
    read_package_arity [of "[15000, 1 :: real]"]
    read_package_arity [of "[9000, 1, 75, 180 :: real]"]
    read_package_arity [of "[9000, 1, 75, 180, 0 :: real]"]
    read_package_arity [of "[720, 1, 80, 25, 40 :: real]"]
    read_package_arity [of "[] :: real list"]
  by simp

subsection \<open>Negative calories\<close>

text \<open>
  C10. There is a valid running workout (non-negative count, positive duration and weight)
  whose mean speed is below \<open>20 / 18\<close> km/h and whose spent calories are negative: 1000
  steps in one hour at 75 kg give 0.65 km/h and -37.35. The result is not clamped at zero.
\<close>

theorem running_calories_negative:
  "get_mean_speed (Running 1000 1 75) = Inr 0.65 \<and>
   get_spent_calories (Running 1000 1 75) = Inr (- 37.35) \<and>
   (\<exists>a d w v c. 0 \<le> a \<and> 0 < d \<and> 0 < w \<and>
      get_mean_speed (Running a d w) = Inr v \<and> v < 20 / 18 \<and>
      get_spent_calories (Running a d w) = Inr c \<and> c < 0)"
proof -
  have speed: "get_mean_speed (Running 1000 1 75) = Inr 0.65"
    by (simp add: get_distance_def truediv_def M_IN_KM_def)
  then have cal: "get_spent_calories (Running 1000 1 75) = Inr (- 37.35)"
    by (simp add: M_IN_KM_def MIN_IN_HOUR_def)
  have "(0 :: real) \<le> 1000 \<and> (0 :: real) < 1 \<and> (0 :: real) < 75 \<and>
      get_mean_speed (Running 1000 1 75) = Inr 0.65 \<and> (0.65 :: real) < 20 / 18 \<and>
      get_spent_calories (Running 1000 1 75) = Inr (- 37.35) \<and> (- 37.35 :: real) < 0"
    using speed cal by simp
  then have "\<exists>a d w v c. 0 \<le> a \<and> 0 < d \<and> 0 < w \<and>
      get_mean_speed (Running a d w) = Inr v \<and> v < 20 / 18 \<and>
      get_spent_calories (Running a d w) = Inr c \<and> c < 0"
    by blast
  with speed cal show ?thesis
    by blast
qed

end
